theory Spec2Isabelle
  imports Main "HOL-Library.Sublist" "HOL-Library.Char_ord" "HOL-Library.List_Lexorder"
begin

section \<open>Data model (src/types/index.ts and the table definitions)\<close>

text \<open>
  The TypeScript string-literal unions become datatypes, the interfaces become records.
  A JavaScript string is modelled as a \<open>string\<close>, one \<open>char\<close> per code unit (code units
  below 256); a column or property that may be \<open>null\<close> is an \<open>option\<close>.  Several
  interfaces share property names
  (\<open>id\<close>, \<open>created_at\<close>, \<open>request_id\<close>, \<open>summary\<close>, ...); a record field that would clash
  carries a short prefix naming its interface, every other field keeps its name.
\<close>

datatype ReportType = API | Database | API_Database

datatype Environment = Development | Test | Staging | Production | Not_Applicable

datatype RequestStatus = Queued | Running | Completed | Failed

record Release =
  rel_id :: string
  version :: string
  release_date :: string
  is_active :: bool
  rel_created_at :: string

record AssessmentRequest =
  req_id :: string
  user_id :: string
  report_type :: ReportType
  current_release_id :: string
  target_release_id :: string
  environment :: Environment
  title :: "string option"
  description :: "string option"
  status :: RequestStatus
  error_message :: "string option"
  email_notification :: bool
  inapp_notification :: bool
  created_at :: string
  updated_at :: string
  completed_at :: "string option"

record Attachment =
  att_id :: string
  att_request_id :: string
  filename :: string
  file_path :: string
  file_size :: nat
  file_type :: string
  uploaded_at :: string


section \<open>Request detail view (RequestDetail)\<close>

subsection \<open>The write issued by the view\<close>

text \<open>
  \<open>supabase.from('assessment_requests').update(obj).eq('id', v)\<close> carries an object whose
  keys are columns of the table and one equality filter.  A key of the object is one
  \<open>assignment\<close>; there is a constructor for every column, so that a payload could name any
  of them.
\<close>

datatype assignment =
    Set_id string
  | Set_user_id string
  | Set_report_type ReportType
  | Set_current_release_id string
  | Set_target_release_id string
  | Set_environment Environment
  | Set_title "string option"
  | Set_description "string option"
  | Set_status RequestStatus
  | Set_error_message "string option"
  | Set_email_notification bool
  | Set_inapp_notification bool
  | Set_created_at string
  | Set_updated_at string
  | Set_completed_at "string option"

record request_update =
  payload :: "assignment list"
  eq_id :: string

fun assign :: "assignment \<Rightarrow> AssessmentRequest \<Rightarrow> AssessmentRequest" where
  "assign (Set_id v) row = row\<lparr>req_id := v\<rparr>"
| "assign (Set_user_id v) row = row\<lparr>user_id := v\<rparr>"
| "assign (Set_report_type v) row = row\<lparr>report_type := v\<rparr>"
| "assign (Set_current_release_id v) row = row\<lparr>current_release_id := v\<rparr>"
| "assign (Set_target_release_id v) row = row\<lparr>target_release_id := v\<rparr>"
| "assign (Set_environment v) row = row\<lparr>environment := v\<rparr>"
| "assign (Set_title v) row = row\<lparr>title := v\<rparr>"
| "assign (Set_description v) row = row\<lparr>description := v\<rparr>"
| "assign (Set_status v) row = row\<lparr>status := v\<rparr>"
| "assign (Set_error_message v) row = row\<lparr>error_message := v\<rparr>"
| "assign (Set_email_notification v) row = row\<lparr>email_notification := v\<rparr>"
| "assign (Set_inapp_notification v) row = row\<lparr>inapp_notification := v\<rparr>"
| "assign (Set_created_at v) row = row\<lparr>created_at := v\<rparr>"
| "assign (Set_updated_at v) row = row\<lparr>updated_at := v\<rparr>"
| "assign (Set_completed_at v) row = row\<lparr>completed_at := v\<rparr>"

definition apply_payload :: "assignment list \<Rightarrow> AssessmentRequest \<Rightarrow> AssessmentRequest" where
  "apply_payload p row = fold assign p row"

text \<open>
  The table side of the write, from the migration: the policy
  "Users can update own requests" lets the statement see only the rows with
  \<open>auth.uid() = user_id\<close> (\<open>USING\<close>), and refuses the statement when a rewritten row no
  longer satisfies it (\<open>WITH CHECK\<close>).  \<open>uid\<close> is \<open>auth.uid()\<close>.
\<close>

definition targeted :: "string \<Rightarrow> request_update \<Rightarrow> AssessmentRequest \<Rightarrow> bool" where
  "targeted uid u row \<longleftrightarrow> req_id row = eq_id u \<and> user_id row = uid"

definition run_update ::
  "string \<Rightarrow> request_update \<Rightarrow> AssessmentRequest list \<Rightarrow> AssessmentRequest list option" where
  "run_update uid u tbl =
     (let tbl' = map (\<lambda>row. if targeted uid u row then apply_payload (payload u) row else row) tbl
      in if (\<forall>row \<in> set tbl. targeted uid u row \<longrightarrow> user_id (apply_payload (payload u) row) = uid)
         then Some tbl' else None)"

subsection \<open>Component state, cancellation handler and rendering\<close>

record detail_state =
  request :: "AssessmentRequest option"
  releases :: "Release list"
  attachments :: "Attachment list"
  loading :: bool
  error :: string
  toast :: "string option"
  cancelConfirm :: bool
  canceling :: bool
  navigate_to :: "string option"

text \<open>
  \<open>handleCancel\<close>.  The argument \<open>failed\<close> is the \<open>error\<close> property of the backend's reply
  (true when it is set).  The result is the write handed to the backend (none on the early
  return) and the state after the \<open>finally\<close> block; \<open>navigate_to\<close> holds the navigation
  that the timer started on success will perform.
\<close>

definition handleCancel :: "bool \<Rightarrow> detail_state \<Rightarrow> request_update option \<times> detail_state" where
  "handleCancel failed st =
     (case request st of
        None \<Rightarrow> (None, st)
      | Some r \<Rightarrow>
          (Some \<lparr>payload = [Set_status Failed, Set_error_message (Some ''Canceled by user'')],
                 eq_id = req_id r\<rparr>,
           if failed
           then st\<lparr>toast := Some ''Failed to cancel request'',
                   canceling := False, cancelConfirm := False\<rparr>
           else st\<lparr>toast := Some ''Request canceled'', navigate_to := Some ''/dashboard'',
                   canceling := False, cancelConfirm := False\<rparr>))"

text \<open>
  Rendering, as far as the controls go: the skeleton while loading, the error panel when
  \<open>error\<close> is set or no request is loaded, and otherwise the detail view with its row of
  actions and, when \<open>cancelConfirm\<close> is set, the confirmation dialog.
\<close>

datatype control = ViewResults string | ShareLink | CancelButton

datatype rendered =
    Skeleton
  | UnableToLoad string
  | DetailView "control list" bool

definition actions :: "AssessmentRequest \<Rightarrow> control list" where
  "actions r =
     (if status r = Completed then [ViewResults (''/request/'' @ req_id r @ ''/results'')] else [])
     @ [ShareLink]
     @ (if status r = Queued \<or> status r = Running then [CancelButton] else [])"

definition render :: "detail_state \<Rightarrow> rendered" where
  "render st =
     (if loading st then Skeleton
      else case request st of
             None \<Rightarrow> UnableToLoad (if error st \<noteq> [] then error st else ''Request not found'')
           | Some r \<Rightarrow>
               if error st \<noteq> [] then UnableToLoad (error st)
               else DetailView (actions r) (cancelConfirm st))"

text \<open>
  The events of the view that touch cancellation.  A click reaches its handler only while
  its button is rendered: the cancel button when it is among the actions, the two buttons
  of the confirmation dialog while the dialog is shown, and the confirming one only while
  it is not disabled by \<open>canceling\<close>.  \<open>RowUpdated\<close> is the subscription callback, which
  replaces the loaded request by the row of the change notification.
\<close>

datatype event =
    ClickCancel
  | KeepRequest
  | RowUpdated AssessmentRequest
  | ConfirmCancel bool

definition cancel_offered :: "detail_state \<Rightarrow> bool" where
  "cancel_offered st \<longleftrightarrow>
     (case render st of DetailView acts _ \<Rightarrow> CancelButton \<in> set acts | _ \<Rightarrow> False)"

definition dialog_shown :: "detail_state \<Rightarrow> bool" where
  "dialog_shown st \<longleftrightarrow> (case render st of DetailView _ modal \<Rightarrow> modal | _ \<Rightarrow> False)"

fun step :: "event \<Rightarrow> detail_state \<Rightarrow> request_update option \<times> detail_state" where
  "step ClickCancel st = (None, if cancel_offered st then st\<lparr>cancelConfirm := True\<rparr> else st)"
| "step KeepRequest st = (None, if dialog_shown st then st\<lparr>cancelConfirm := False\<rparr> else st)"
| "step (RowUpdated r) st = (None, st\<lparr>request := Some r\<rparr>)"
| "step (ConfirmCancel failed) st =
     (if dialog_shown st \<and> \<not> canceling st then handleCancel failed st else (None, st))"

subsection \<open>A sample request and view state\<close>

definition sample_request :: AssessmentRequest where
  "sample_request =
     \<lparr>req_id = ''3f2a9c1e-77aa-4b6e-9d2c-5e8f00112233'', user_id = ''user-1'',
      report_type = API, current_release_id = ''rel-20'', target_release_id = ''rel-21'',
      environment = Not_Applicable, title = Some ''Q1 Production Upgrade Assessment'',
      description = None, status = Running, error_message = None,
      email_notification = True, inapp_notification = True,
      created_at = ''2026-01-01T17:43:10+00:00'', updated_at = ''2026-01-01T17:45:00+00:00'',
      completed_at = None\<rparr>"

definition sample_detail :: "AssessmentRequest \<Rightarrow> detail_state" where
  "sample_detail r =
     \<lparr>request = Some r, releases = [], attachments = [], loading = False, error = [],
      toast = None, cancelConfirm = False, canceling = False, navigate_to = None\<rparr>"


section \<open>Submission form (NewAssessment)\<close>

text \<open>
  \<open>File\<close> is the browser's file object, of which the form reads \<open>name\<close>, \<open>size\<close> (a byte
  count) and \<open>type\<close> (the MIME type).  In \<open>FormData\<close> the report type is \<open>None\<close> for the
  initial \<open>''\<close>; an empty string is the falsy value of the other text fields.
  \<open>FormErrors\<close> has a key exactly where the field is \<open>Some\<close>.
\<close>

record File =
  f_name :: string
  f_size :: nat
  f_type :: string

record AuthUser =
  au_id :: string
  email :: string
  au_created_at :: string

record FormData =
  reportType :: "ReportType option"
  currentReleaseId :: string
  targetReleaseId :: string
  fd_title :: string
  fd_environment :: Environment
  fd_description :: string
  emailNotification :: bool
  inappNotification :: bool

record FormErrors =
  e_reportType :: "string option"
  e_currentReleaseId :: "string option"
  e_targetReleaseId :: "string option"
  e_title :: "string option"
  e_description :: "string option"
  e_attachments :: "string option"

datatype toast_type = Toast_success | Toast_error

record form_state =
  user :: "AuthUser option"
  form_releases :: "Release list"
  formData :: FormData
  form_attachments :: "File list"
  errors :: FormErrors
  showConfirm :: bool
  submitting :: bool
  form_toast :: "(string \<times> toast_type) option"
  form_navigate_to :: "string option"

definition no_errors :: FormErrors where
  "no_errors = \<lparr>e_reportType = None, e_currentReleaseId = None, e_targetReleaseId = None,
                 e_title = None, e_description = None, e_attachments = None\<rparr>"

text \<open>\<open>Object.keys(errors)\<close>: the keys that are present.\<close>

definition error_keys :: "FormErrors \<Rightarrow> string list" where
  "error_keys e =
     (if e_reportType e \<noteq> None then [''reportType''] else [])
     @ (if e_currentReleaseId e \<noteq> None then [''currentReleaseId''] else [])
     @ (if e_targetReleaseId e \<noteq> None then [''targetReleaseId''] else [])
     @ (if e_title e \<noteq> None then [''title''] else [])
     @ (if e_description e \<noteq> None then [''description''] else [])
     @ (if e_attachments e \<noteq> None then [''attachments''] else [])"

text \<open>
  \<open>validate\<close>: one \<open>let\<close> per \<open>if\<close> statement of the source, in its order; the result is
  the object given to \<open>setErrors\<close> and the returned boolean.  \<open>\<ge>\<close> on version strings is
  the comparison of JavaScript strings: lexicographic on code units, a proper prefix being
  smaller.  \<open>reduce\<close> is a left fold starting from 0.
\<close>

definition validate :: "form_state \<Rightarrow> FormErrors \<times> bool" where
  "validate st =
     (let fd = formData st;
          e1 = (if reportType fd = None
                then no_errors\<lparr>e_reportType := Some ''Please select a report type''\<rparr>
                else no_errors);
          e2 = (if currentReleaseId fd = []
                then e1\<lparr>e_currentReleaseId := Some ''Please select your current release''\<rparr>
                else e1);
          e3 = (if targetReleaseId fd = []
                then e2\<lparr>e_targetReleaseId := Some ''Please select a target release''\<rparr>
                else e2);
          e4 = (if currentReleaseId fd \<noteq> [] \<and> targetReleaseId fd \<noteq> []
                then (case find (\<lambda>r. rel_id r = currentReleaseId fd) (form_releases st) of
                        None \<Rightarrow> e3
                      | Some currentRelease \<Rightarrow>
                          (case find (\<lambda>r. rel_id r = targetReleaseId fd) (form_releases st) of
                             None \<Rightarrow> e3
                           | Some targetRelease \<Rightarrow>
                               if version currentRelease \<ge> version targetRelease
                               then e3\<lparr>e_targetReleaseId :=
                                         Some ''Target release must be newer than current release''\<rparr>
                               else e3))
                else e3);
          e5 = (if fd_title fd \<noteq> [] \<and> length (fd_title fd) > 100
                then e4\<lparr>e_title := Some ''Title cannot exceed 100 characters''\<rparr>
                else e4);
          e6 = (if fd_description fd \<noteq> [] \<and> length (fd_description fd) > 1000
                then e5\<lparr>e_description := Some ''Description cannot exceed 1000 characters''\<rparr>
                else e5);
          totalSize = foldl (\<lambda>sum file. sum + f_size file) 0 (form_attachments st);
          e7 = (if length (form_attachments st) > 5
                then e6\<lparr>e_attachments := Some ''Maximum 5 files allowed''\<rparr>
                else e6);
          e8 = (if totalSize > 50 * 1024 * 1024
                then e7\<lparr>e_attachments := Some ''Total file size cannot exceed 50MB''\<rparr>
                else e7)
      in (e8, length (error_keys e8) = 0))"

definition validTypes :: "string list" where
  "validTypes = [''application/pdf'', ''text/plain'', ''text/markdown'', ''application/json'',
                 ''application/xml'', ''text/xml'']"

definition handleFileChange :: "File list \<Rightarrow> form_state \<Rightarrow> form_state" where
  "handleFileChange files st =
     (let validFiles = filter (\<lambda>file. f_type file \<in> set validTypes
                                      \<and> f_size file \<le> 10 * 1024 * 1024) files
      in st\<lparr>errors :=
               (if length validFiles < length files
                then (errors st)\<lparr>e_attachments := Some
                  ''Some files were rejected. Only PDF, TXT, MD, JSON, XML files up to 10MB are allowed.''\<rparr>
                else (errors st)\<lparr>e_attachments := None\<rparr>),
             form_attachments := form_attachments st @ validFiles\<rparr>)"

definition handleSubmit :: "form_state \<Rightarrow> form_state" where
  "handleSubmit st =
     (case validate st of
        (newErrors, ok) \<Rightarrow>
          if \<not> ok then st\<lparr>errors := newErrors\<rparr>
          else st\<lparr>errors := newErrors, showConfirm := True\<rparr>)"

subsection \<open>Confirmation: the calls made to the backend\<close>

text \<open>
  The row object given to \<open>insert\<close> on \<open>assessment_requests\<close>, the upload to the
  \<open>attachments\<close> bucket, and the row object given to \<open>insert\<close> on \<open>attachments\<close>.
\<close>

record request_insert =
  ins_user_id :: string
  ins_report_type :: "ReportType option"
  ins_current_release_id :: string
  ins_target_release_id :: string
  ins_title :: "string option"
  ins_environment :: Environment
  ins_description :: "string option"
  ins_email_notification :: bool
  ins_inapp_notification :: bool

record attachment_insert =
  ins_request_id :: string
  ins_filename :: string
  ins_file_path :: string
  ins_file_size :: nat
  ins_file_type :: string

datatype backend_call =
    InsertRequest request_insert
  | StorageUpload string File
  | InsertAttachment attachment_insert

text \<open>
  The reply to the first insert is \<open>{data, error}\<close>: \<open>reply_id\<close> is \<open>data.id\<close> when \<open>data\<close>
  is not null, and \<open>reply_error\<close> is the message shown for \<open>error\<close> when it is set (its
  \<open>message\<close> if it is an \<open>Error\<close>, the fixed text otherwise).
\<close>

datatype thrown = Error_instance string | Not_an_Error

record insert_reply =
  reply_id :: "string option"
  reply_error :: "thrown option"

fun caught_message :: "thrown \<Rightarrow> string" where
  "caught_message (Error_instance m) = m"
| "caught_message Not_an_Error = ''Failed to submit request''"

text \<open>\<open>toUpperCase\<close> and \<open>toLowerCase\<close> on the ASCII letters; other code units stay.\<close>

definition upper_char :: "char \<Rightarrow> char" where
  "upper_char c = (if CHR ''a'' \<le> c \<and> c \<le> CHR ''z'' then char_of (of_char c - (32::nat)) else c)"

definition lower_char :: "char \<Rightarrow> char" where
  "lower_char c = (if CHR ''A'' \<le> c \<and> c \<le> CHR ''Z'' then char_of (of_char c + (32::nat)) else c)"

definition ascii_toUpperCase :: "string \<Rightarrow> string" where
  "ascii_toUpperCase s = map upper_char s"

definition ascii_toLowerCase :: "string \<Rightarrow> string" where
  "ascii_toLowerCase s = map lower_char s"

definition filePath :: "AuthUser \<Rightarrow> string \<Rightarrow> File \<Rightarrow> string" where
  "filePath u data_id file = au_id u @ ''/'' @ data_id @ ''/'' @ f_name file"

text \<open>
  \<open>handleConfirm\<close>.  \<open>null_deref\<close> is the \<open>TypeError\<close> the engine throws at \<open>data.id\<close> when
  the reply has neither data nor error.  The results of the upload and of the attachment
  insert are not looked at, so the loop runs over every accepted file.  The result is the
  list of calls in the order they are made, and the state after the \<open>finally\<close> block.
\<close>

definition handleConfirm ::
  "thrown \<Rightarrow> insert_reply \<Rightarrow> form_state \<Rightarrow> backend_call list \<times> form_state" where
  "handleConfirm null_deref reply st =
     (case user st of
        None \<Rightarrow> ([], st)
      | Some u \<Rightarrow>
          (let fd = formData st;
               ins = InsertRequest
                 \<lparr>ins_user_id = au_id u,
                  ins_report_type = reportType fd,
                  ins_current_release_id = currentReleaseId fd,
                  ins_target_release_id = targetReleaseId fd,
                  ins_title = (if fd_title fd \<noteq> [] then Some (fd_title fd) else None),
                  ins_environment = fd_environment fd,
                  ins_description = (if fd_description fd \<noteq> [] then Some (fd_description fd) else None),
                  ins_email_notification = emailNotification fd,
                  ins_inapp_notification = inappNotification fd\<rparr>;
               failed = (\<lambda>e. st\<lparr>form_toast := Some (caught_message e, Toast_error),
                                 submitting := False, showConfirm := False\<rparr>)
           in case reply_error reply of
                Some e \<Rightarrow> ([ins], failed e)
              | None \<Rightarrow>
                  (case reply_id reply of
                     None \<Rightarrow> ([ins], failed null_deref)
                   | Some data_id \<Rightarrow>
                       ([ins] @ concat (map (\<lambda>file.
                            [StorageUpload (filePath u data_id file) file,
                             InsertAttachment
                               \<lparr>ins_request_id = data_id,
                                ins_filename = f_name file,
                                ins_file_path = filePath u data_id file,
                                ins_file_size = f_size file,
                                ins_file_type = f_type file\<rparr>]) (form_attachments st)),
                        st\<lparr>form_toast := Some
                             (''Assessment request submitted successfully. Request #''
                                @ ascii_toUpperCase (take 8 data_id), Toast_success),
                           form_navigate_to := Some (''/request/'' @ data_id),
                           submitting := False, showConfirm := False\<rparr>))))"

fun upload_path :: "backend_call \<Rightarrow> (string \<times> File) option" where
  "upload_path (StorageUpload p f) = Some (p, f)"
| "upload_path _ = None"

subsection \<open>Sample form states\<close>

definition release_EB21 :: Release where
  "release_EB21 = \<lparr>rel_id = ''rel-21'', version = ''EB21'', release_date = ''2026-01-01'',
                    is_active = True, rel_created_at = ''2026-01-01''\<rparr>"

definition release_EB20 :: Release where
  "release_EB20 = \<lparr>rel_id = ''rel-20'', version = ''EB20'', release_date = ''2026-01-01'',
                    is_active = True, rel_created_at = ''2026-01-01''\<rparr>"

definition sample_releases :: "Release list" where
  "sample_releases = [release_EB21, release_EB20]"

definition sample_form :: "string \<Rightarrow> string \<Rightarrow> File list \<Rightarrow> form_state" where
  "sample_form cur tgt files =
     \<lparr>user = Some \<lparr>au_id = ''user-1'', email = ''a@example.com'', au_created_at = ''2026-01-01''\<rparr>,
      form_releases = sample_releases,
      formData = \<lparr>reportType = Some API, currentReleaseId = cur, targetReleaseId = tgt,
                  fd_title = [], fd_environment = Not_Applicable, fd_description = [],
                  emailNotification = True, inappNotification = True\<rparr>,
      form_attachments = files, errors = no_errors, showConfirm = False, submitting = False,
      form_toast = None, form_navigate_to = None\<rparr>"

definition pdf :: "string \<Rightarrow> nat \<Rightarrow> File" where
  "pdf n bytes = \<lparr>f_name = n, f_size = bytes, f_type = ''application/pdf''\<rparr>"


section \<open>Assessment results (src/types/index.ts)\<close>

text \<open>
  The engine's type \<open>number\<close> is the type parameter \<open>'num\<close> of the records, and the opaque
  \<open>raw_data: Record<string, unknown>\<close> is the type parameter \<open>'raw\<close>: the repository does
  no arithmetic on the counts and never looks inside the payload, it only hands them to
  the engine's own functions (the conversion of a template literal, \<open>JSON.stringify\<close>).  An
  optional property is \<open>None\<close> when it is absent or \<open>null\<close>.
\<close>

abbreviation LF :: char where
  "LF \<equiv> CHR 0x0A"

datatype RiskLevel = Low | Medium | High

datatype ChangeType = Added | Modified | Removed

record 'num AssessmentSummary =
  api_endpoints_modified :: 'num
  api_endpoints_added :: 'num
  api_endpoints_removed :: 'num
  database_tables_modified :: 'num
  database_tables_added :: 'num
  database_tables_removed :: 'num
  risk_level :: RiskLevel
  breaking_changes :: bool
  key_findings :: "string list"

record ApiDetails =
  parameters_changed :: "string list option"
  response_schema_changed :: "bool option"
  d_breaking_changes :: "string list option"

record ApiChange =
  endpoint :: string
  http_method :: string
  api_change_type :: ChangeType
  api_summary :: string
  api_details :: "ApiDetails option"

record DatabaseDetails =
  columns_added :: "string list option"
  columns_removed :: "string list option"
  columns_modified :: "string list option"
  indexes_changed :: "string list option"

record DatabaseChange =
  table_name :: string
  db_change_type :: ChangeType
  db_summary :: string
  db_details :: "DatabaseDetails option"

record ('num, 'raw) AssessmentResults =
  res_id :: string
  res_request_id :: string
  summary :: "'num AssessmentSummary"
  api_changes :: "ApiChange list option"
  database_changes :: "DatabaseChange list option"
  raw_data :: 'raw
  generated_at :: string

text \<open>The text of each string-literal type, as it appears in a template literal.\<close>

fun ReportType_text :: "ReportType \<Rightarrow> string" where
  "ReportType_text API = ''API''"
| "ReportType_text Database = ''Database''"
| "ReportType_text API_Database = ''API + Database''"

fun RequestStatus_text :: "RequestStatus \<Rightarrow> string" where
  "RequestStatus_text Queued = ''Queued''"
| "RequestStatus_text Running = ''Running''"
| "RequestStatus_text Completed = ''Completed''"
| "RequestStatus_text Failed = ''Failed''"

fun RiskLevel_text :: "RiskLevel \<Rightarrow> string" where
  "RiskLevel_text Low = ''Low''"
| "RiskLevel_text Medium = ''Medium''"
| "RiskLevel_text High = ''High''"

fun ChangeType_text :: "ChangeType \<Rightarrow> string" where
  "ChangeType_text Added = ''Added''"
| "ChangeType_text Modified = ''Modified''"
| "ChangeType_text Removed = ''Removed''"


section \<open>Results view (Results)\<close>

datatype tab = Tab_summary | Tab_api | Tab_database | Tab_raw

record ('num, 'raw) results_state =
  rs_request :: "AssessmentRequest option"
  results :: "('num, 'raw) AssessmentResults option"
  rs_releases :: "Release list"
  rs_loading :: bool
  rs_error :: string
  activeTab :: tab
  apiFilter :: string
  dbFilter :: string
  rs_toast :: "string option"
  downloading :: bool

text \<open>
  \<open>generateMarkdown\<close>.  The argument \<open>toLocaleString\<close> stands for
  \<open>new Date(s).toLocaleString()\<close> on the host: what it returns depends on the host's locale
  and time zone.  The argument \<open>numberToString\<close> stands for the engine's conversion of a
  number placed in a template literal.  Each \<open>forEach\<close> is a left fold appending to
  \<open>markdown\<close>.
\<close>

definition generateMarkdown ::
  "(string \<Rightarrow> string) \<Rightarrow> ('num \<Rightarrow> string) \<Rightarrow> ('num, 'raw) results_state \<Rightarrow> string" where
  "generateMarkdown toLocaleString numberToString st =
     (case results st of
        None \<Rightarrow> []
      | Some res \<Rightarrow>
     (case rs_request st of
        None \<Rightarrow> []
      | Some req \<Rightarrow>
          (let m1 = ''# Impact Assessment Report'' @ [LF, LF]
                 @ ''**Request ID:** '' @ req_id req @ [LF]
                 @ ''**Report Type:** '' @ ReportType_text (report_type req) @ [LF]
                 @ ''**Generated:** '' @ toLocaleString (generated_at res) @ [LF, LF];
               m2 = m1 @ ''## Summary'' @ [LF, LF]
                 @ ''- **API Endpoints Modified:** ''
                 @ numberToString (api_endpoints_modified (summary res)) @ [LF]
                 @ ''- **API Endpoints Added:** ''
                 @ numberToString (api_endpoints_added (summary res)) @ [LF]
                 @ ''- **API Endpoints Removed:** ''
                 @ numberToString (api_endpoints_removed (summary res)) @ [LF]
                 @ ''- **Database Tables Modified:** ''
                 @ numberToString (database_tables_modified (summary res)) @ [LF]
                 @ ''- **Database Tables Added:** ''
                 @ numberToString (database_tables_added (summary res)) @ [LF]
                 @ ''- **Database Tables Removed:** ''
                 @ numberToString (database_tables_removed (summary res)) @ [LF]
                 @ ''- **Risk Level:** '' @ RiskLevel_text (risk_level (summary res)) @ [LF]
                 @ ''- **Breaking Changes:** ''
                 @ (if breaking_changes (summary res) then ''Yes'' else ''No'') @ [LF, LF];
               m3 = (if length (key_findings (summary res)) > 0
                     then foldl (\<lambda>markdown finding. markdown @ ''- '' @ finding @ [LF])
                            (m2 @ ''## Key Findings'' @ [LF, LF]) (key_findings (summary res))
                          @ [LF]
                     else m2);
               m4 = (case api_changes res of
                       None \<Rightarrow> m3
                     | Some changes \<Rightarrow>
                         if length changes > 0
                         then foldl (\<lambda>markdown change. markdown
                                 @ ''### '' @ endpoint change @ [LF]
                                 @ ''- **Method:** '' @ http_method change @ [LF]
                                 @ ''- **Type:** '' @ ChangeType_text (api_change_type change) @ [LF]
                                 @ ''- **Summary:** '' @ api_summary change @ [LF, LF])
                                (m3 @ ''## API Changes'' @ [LF, LF]) changes
                         else m3);
               m5 = (case database_changes res of
                       None \<Rightarrow> m4
                     | Some changes \<Rightarrow>
                         if length changes > 0
                         then foldl (\<lambda>markdown change. markdown
                                 @ ''### '' @ table_name change @ [LF]
                                 @ ''- **Type:** '' @ ChangeType_text (db_change_type change) @ [LF]
                                 @ ''- **Summary:** '' @ db_summary change @ [LF, LF])
                                (m4 @ ''## Database Changes'' @ [LF, LF]) changes
                         else m4)
           in m5)))"

datatype format = Format_pdf | Format_json | Format_markdown

record download =
  content :: string
  download_filename :: string
  blob_type :: string

text \<open>\<open>filename.replace('.', '.json')\<close>: the first full stop is replaced.\<close>

fun replace_first_dot :: "string \<Rightarrow> string" where
  "replace_first_dot [] = []"
| "replace_first_dot (c # cs) = (if c = CHR ''.'' then ''.json'' @ cs else c # replace_first_dot cs)"

text \<open>
  \<open>handleDownload\<close>: the file offered to the browser (none on the early return) and the
  state after the \<open>finally\<close> block.  The argument \<open>stringify\<close> stands for the engine's
  \<open>JSON.stringify(results, null, 2)\<close>.  \<open>request?.id.slice(0, 8)\<close> in the template literal
  is the text \<open>undefined\<close> when no request is loaded.
\<close>

definition handleDownload ::
  "(('num, 'raw) AssessmentResults \<Rightarrow> string) \<Rightarrow> (string \<Rightarrow> string) \<Rightarrow> ('num \<Rightarrow> string) \<Rightarrow>
     format \<Rightarrow> ('num, 'raw) results_state \<Rightarrow> download option \<times> ('num, 'raw) results_state" where
  "handleDownload stringify toLocaleString numberToString fmt st =
     (case results st of
        None \<Rightarrow> (None, st)
      | Some res \<Rightarrow>
          (let filename = ''assessment-''
                 @ (case rs_request st of None \<Rightarrow> ''undefined'' | Some req \<Rightarrow> take 8 (req_id req))
                 @ ''.'';
               file = (case fmt of
                         Format_json \<Rightarrow> (stringify res, filename @ ''json'')
                       | Format_markdown \<Rightarrow>
                           (generateMarkdown toLocaleString numberToString st, filename @ ''md'')
                       | Format_pdf \<Rightarrow> (stringify res, replace_first_dot filename))
           in (Some \<lparr>content = fst file, download_filename = snd file, blob_type = ''text/plain''\<rparr>,
               st\<lparr>rs_toast := Some ''Report downloaded successfully'', downloading := False\<rparr>)))"

subsection \<open>A sample host\<close>

text \<open>
  One concrete host for the sample evaluations.  Its number conversion is the one the
  engine applies to a non-negative integer count below \<open>10^21\<close>: the decimal digits.
\<close>

definition digit_char :: "nat \<Rightarrow> char" where
  "digit_char d = char_of (48 + d)"

fun decimal :: "nat \<Rightarrow> string" where
  "decimal n = (if n < 10 then [digit_char n] else decimal (n div 10) @ [digit_char (n mod 10)])"

declare decimal.simps [simp del]

text \<open>
  Its serializer is a stand-in: the handler passes the result to the engine's serializer
  and takes the text it returns, so any function of the result serves in an evaluation.
\<close>

definition sample_stringify :: "(nat, unit) AssessmentResults \<Rightarrow> string" where
  "sample_stringify r = ''{id: '' @ res_id r @ '', generated_at: '' @ generated_at r @ ''}''"

text \<open>
  Its \<open>toLocaleString\<close> is that of the locale \<open>en-GB\<close> in the time zone UTC, on the instants
  the backend returns, \<open>YYYY-MM-DDTHH:MM:SS\<close> with an optional fraction and the zone \<open>Z\<close> or
  \<open>+00:00\<close>.  Such an instant is shown as \<open>DD/MM/YYYY, HH:MM:SS\<close>; a string that is not of
  this form is shown as \<open>Invalid Date\<close>.
\<close>

definition is_digit :: "char \<Rightarrow> bool" where
  "is_digit c \<longleftrightarrow> CHR ''0'' \<le> c \<and> c \<le> CHR ''9''"

definition two_digits :: "string \<Rightarrow> nat option" where
  "two_digits s =
     (case s of
        [a, b] \<Rightarrow> if is_digit a \<and> is_digit b
                  then Some (10 * (of_char a - 48) + (of_char b - 48)) else None
      | _ \<Rightarrow> None)"

definition utc_zone :: "string \<Rightarrow> bool" where
  "utc_zone z \<longleftrightarrow>
     (let z' = (case z of
                  c # ds \<Rightarrow> if c = CHR ''.'' \<and> takeWhile is_digit ds \<noteq> []
                            then dropWhile is_digit ds else z
                | [] \<Rightarrow> z)
      in z' = ''Z'' \<or> z' = ''+00:00'')"

definition days_in_month :: "nat \<Rightarrow> nat \<Rightarrow> nat" where
  "days_in_month y m =
     (if m = 2 then (if y mod 4 = 0 \<and> (y mod 100 \<noteq> 0 \<or> y mod 400 = 0) then 29 else 28)
      else if m \<in> {4, 6, 9, 11} then 30 else 31)"

definition en_GB_UTC :: "string \<Rightarrow> string" where
  "en_GB_UTC s =
     (let yyyy = take 4 s; mo = take 2 (drop 5 s); dd = take 2 (drop 8 s);
          hh = take 2 (drop 11 s); mi = take 2 (drop 14 s); ss = take 2 (drop 17 s)
      in case (two_digits (take 2 yyyy), two_digits (drop 2 yyyy), two_digits mo, two_digits dd,
               two_digits hh, two_digits mi, two_digits ss) of
           (Some c, Some y, Some m, Some d, Some h, Some n, Some e) \<Rightarrow>
             if take 1 (drop 4 s) @ take 1 (drop 7 s) @ take 1 (drop 10 s) @ take 1 (drop 13 s)
                  @ take 1 (drop 16 s) = ''--T::'' \<and> utc_zone (drop 19 s)
                \<and> 1 \<le> m \<and> m \<le> 12 \<and> 1 \<le> d \<and> d \<le> days_in_month (100 * c + y) m
                \<and> h < 24 \<and> n < 60 \<and> e < 60
             then dd @ ''/'' @ mo @ ''/'' @ yyyy @ '', '' @ hh @ '':'' @ mi @ '':'' @ ss
             else ''Invalid Date''
         | _ \<Rightarrow> ''Invalid Date'')"


subsection \<open>A sample result and view states\<close>

definition sample_results :: "(nat, unit) AssessmentResults" where
  "sample_results =
     \<lparr>res_id = ''12345678-1234-1234-1234-123456789012'',
      res_request_id = ''3f2a9c1e-77aa-4b6e-9d2c-5e8f00112233'',
      summary = \<lparr>api_endpoints_modified = 3, api_endpoints_added = 1, api_endpoints_removed = 1,
                 database_tables_modified = 3, database_tables_added = 1,
                 database_tables_removed = 1, risk_level = Medium, breaking_changes = True,
                 key_findings = [''New audit_logs table available for compliance tracking.'']\<rparr>,
      api_changes = Some [\<lparr>endpoint = ''/api/v2/webhooks'', http_method = ''POST'',
                            api_change_type = Modified,
                            api_summary = ''New required field in request body'',
                            api_details = None\<rparr>],
      database_changes = None,
      raw_data = (),
      generated_at = ''2026-01-01T17:43:10.123456+00:00''\<rparr>"

definition sample_results_state :: "(nat, unit) results_state" where
  "sample_results_state =
     \<lparr>rs_request = Some (sample_request\<lparr>status := Completed\<rparr>), results = Some sample_results,
      rs_releases = [], rs_loading = False, rs_error = [], activeTab = Tab_summary,
      apiFilter = ''all'', dbFilter = ''all'', rs_toast = None, downloading = False\<rparr>"


section \<open>Request listing (Dashboard)\<close>

text \<open>
  \<open>fetchData\<close> asks for \<open>select('*').order('created_at', {ascending: false})\<close>.  The table
  answers with the rows the policy "Users can read own requests" lets the caller see,
  latest \<open>created_at\<close> first; \<open>instant\<close> is the value of a \<open>timestamptz\<close> text.
\<close>

definition fetchData ::
  "(string \<Rightarrow> 'a::linorder) \<Rightarrow> string \<Rightarrow> AssessmentRequest list \<Rightarrow> AssessmentRequest list" where
  "fetchData instant uid tbl =
     rev (sort_key (\<lambda>r. instant (created_at r)) (filter (\<lambda>r. user_id r = uid) tbl))"

text \<open>\<open>s.includes(t)\<close>: \<open>t\<close> occurs in \<open>s\<close> as a run of consecutive code units.\<close>

fun String_includes :: "string \<Rightarrow> string \<Rightarrow> bool" where
  "String_includes [] t \<longleftrightarrow> t = []"
| "String_includes (c # s) t \<longleftrightarrow> prefix t (c # s) \<or> String_includes s t"

text \<open>
  \<open>filteredRequests\<close>.  The argument \<open>toLowerCase\<close> is the engine's
  \<open>String.prototype.toLowerCase\<close>; \<open>req.title?.toLowerCase().includes(...) ?? false\<close> is
  false for a null title.
\<close>

definition filteredRequests ::
  "(string \<Rightarrow> string) \<Rightarrow> AssessmentRequest list \<Rightarrow> string \<Rightarrow> string \<Rightarrow> AssessmentRequest list"
  where
  "filteredRequests toLowerCase requests searchTerm statusFilter =
     filter (\<lambda>req.
       let matchesSearch =
             String_includes (req_id req) searchTerm
             \<or> (case title req of
                   None \<Rightarrow> False
                 | Some t \<Rightarrow> String_includes (toLowerCase t) (toLowerCase searchTerm));
           matchesStatus = (statusFilter = ''all'' \<or> RequestStatus_text (status req) = statusFilter)
       in matchesSearch \<and> matchesStatus) requests"


section \<open>Verified properties\<close>

subsection \<open>Request detail view\<close>

lemma status_cases: "s = Queued \<or> s = Running \<or> s = Completed \<or> s = Failed"
  by (cases s) simp_all

lemma CancelButton_in_actions:
  "CancelButton \<in> set (actions r) \<longleftrightarrow> status r = Queued \<or> status r = Running"
  by (simp add: actions_def)




text \<open>
  Claim C2.  When cancellation is confirmed on a loaded request, the write issued is
  addressed to that request's id, carries exactly the two keys \<open>status = Failed\<close> and
  \<open>error_message = Canceled by user\<close>, and applied to any row it leaves every other column
  as it was; on the table, the caller's row with that id is rewritten in these two columns
  and every other row is untouched.
\<close>

theorem handleCancel_update_frame:
  assumes "request st = Some r"
  shows "fst (handleCancel failed st)
           = Some \<lparr>payload = [Set_status Failed, Set_error_message (Some ''Canceled by user'')],
                   eq_id = req_id r\<rparr>
      \<and> (\<forall>row row'.
            row' = apply_payload [Set_status Failed, Set_error_message (Some ''Canceled by user'')] row
            \<longrightarrow> status row' = Failed
              \<and> error_message row' = Some ''Canceled by user''
              \<and> req_id row' = req_id row
              \<and> user_id row' = user_id row
              \<and> report_type row' = report_type row
              \<and> current_release_id row' = current_release_id row
              \<and> target_release_id row' = target_release_id row
              \<and> environment row' = environment row
              \<and> title row' = title row
              \<and> description row' = description row
              \<and> email_notification row' = email_notification row
              \<and> inapp_notification row' = inapp_notification row
              \<and> created_at row' = created_at row
              \<and> updated_at row' = updated_at row
              \<and> completed_at row' = completed_at row)
      \<and> run_update uid
           \<lparr>payload = [Set_status Failed, Set_error_message (Some ''Canceled by user'')],
            eq_id = req_id r\<rparr> tbl
          = Some (map (\<lambda>row. if req_id row = req_id r \<and> user_id row = uid
                            then row\<lparr>status := Failed, error_message := Some ''Canceled by user''\<rparr>
                            else row) tbl)"
proof -
  let ?p = "[Set_status Failed, Set_error_message (Some ''Canceled by user'')]"
  have issued: "fst (handleCancel failed st) = Some \<lparr>payload = ?p, eq_id = req_id r\<rparr>"
    using assms by (simp add: handleCancel_def)
  have row: "apply_payload ?p row
               = row\<lparr>status := Failed, error_message := Some ''Canceled by user''\<rparr>" for row
    by (simp add: apply_payload_def)
  have tbl: "run_update uid \<lparr>payload = ?p, eq_id = req_id r\<rparr> tbl =
          Some (map (\<lambda>row. if req_id row = req_id r \<and> user_id row = uid
                            then row\<lparr>status := Failed, error_message := Some ''Canceled by user''\<rparr>
                            else row) tbl)"
    by (simp add: run_update_def Let_def targeted_def row)
  show ?thesis
    by (simp only: issued tbl row) simp
qed

theorem handleCancel_update_frame_witness:
  "request (sample_detail sample_request) = Some sample_request
   \<and> fst (handleCancel False (sample_detail sample_request))
       = Some \<lparr>payload = [Set_status Failed, Set_error_message (Some ''Canceled by user'')],
               eq_id = ''3f2a9c1e-77aa-4b6e-9d2c-5e8f00112233''\<rparr>
   \<and> run_update ''user-1''
        \<lparr>payload = [Set_status Failed, Set_error_message (Some ''Canceled by user'')],
         eq_id = ''3f2a9c1e-77aa-4b6e-9d2c-5e8f00112233''\<rparr>
        [sample_request, sample_request\<lparr>req_id := ''other''\<rparr>]
       = Some [sample_request\<lparr>status := Failed, error_message := Some ''Canceled by user''\<rparr>,
               sample_request\<lparr>req_id := ''other''\<rparr>]"
  using handleCancel_update_frame
          [of "sample_detail sample_request" sample_request False "''user-1''"
              "[sample_request, sample_request\<lparr>req_id := ''other''\<rparr>]"]
  by (simp add: sample_detail_def sample_request_def)

text \<open>
  Claim C10.  The cancellation handler looks at no status: for every loaded request, whatever
  its status, it issues the write setting \<open>status = Failed\<close> and
  \<open>error_message = Canceled by user\<close>.  The status test lives in the rendering only: for a
  Completed or Failed request the control is absent from the actions.  The handler is
  reached on such a request: once the dialog was opened on a Queued or Running request, it
  stays open when a row update changes the status, and confirming then issues the write.
\<close>

theorem handleCancel_no_status_guard:
  "(request st = Some r \<longrightarrow>
      fst (handleCancel failed st)
        = Some \<lparr>payload = [Set_status Failed, Set_error_message (Some ''Canceled by user'')],
                eq_id = req_id r\<rparr>
      \<and> (status r \<in> {Completed, Failed} \<longrightarrow> CancelButton \<notin> set (actions r)))
   \<and> (\<not> loading st \<and> error st = [] \<and> \<not> canceling st \<and> request st = Some r
        \<and> status r \<in> {Queued, Running} \<longrightarrow>
      fst (step (ConfirmCancel failed) (snd (step (RowUpdated r') (snd (step ClickCancel st)))))
        = Some \<lparr>payload = [Set_status Failed, Set_error_message (Some ''Canceled by user'')],
                eq_id = req_id r'\<rparr>)"
proof -
  have handler: "fst (handleCancel failed st')
        = Some \<lparr>payload = [Set_status Failed, Set_error_message (Some ''Canceled by user'')],
                eq_id = req_id q\<rparr>"
    if "request st' = Some q" for st' q
    using that by (simp add: handleCancel_def)
  have scenario: "fst (step (ConfirmCancel failed)
                    (snd (step (RowUpdated r') (snd (step ClickCancel st)))))
        = Some \<lparr>payload = [Set_status Failed, Set_error_message (Some ''Canceled by user'')],
                eq_id = req_id r'\<rparr>"
    if "\<not> loading st" "error st = []" "\<not> canceling st" "request st = Some r"
       "status r \<in> {Queued, Running}"
  proof -
    from that have "cancel_offered st"
      by (auto simp: cancel_offered_def render_def CancelButton_in_actions)
    then have s1: "snd (step ClickCancel st) = st\<lparr>cancelConfirm := True\<rparr>"
      by simp
    have s2: "snd (step (RowUpdated r') (st\<lparr>cancelConfirm := True\<rparr>))
                = st\<lparr>cancelConfirm := True, request := Some r'\<rparr>"
      by simp
    have shown: "dialog_shown (st\<lparr>cancelConfirm := True, request := Some r'\<rparr>)"
      using that by (simp add: dialog_shown_def render_def)
    show ?thesis
      unfolding s1 s2 using shown that(3) by (simp add: handler)
  qed
  show ?thesis
    using handler [of st r] scenario by (auto simp: CancelButton_in_actions)
qed

theorem handleCancel_no_status_guard_witness:
  "request (sample_detail (sample_request\<lparr>status := Completed\<rparr>))
     = Some (sample_request\<lparr>status := Completed\<rparr>)
   \<and> fst (handleCancel False (sample_detail (sample_request\<lparr>status := Completed\<rparr>)))
       = Some \<lparr>payload = [Set_status Failed, Set_error_message (Some ''Canceled by user'')],
               eq_id = ''3f2a9c1e-77aa-4b6e-9d2c-5e8f00112233''\<rparr>
   \<and> CancelButton \<notin> set (actions (sample_request\<lparr>status := Completed\<rparr>))
   \<and> status sample_request = Running
   \<and> fst (step (ConfirmCancel False)
         (snd (step (RowUpdated (sample_request\<lparr>status := Completed\<rparr>))
           (snd (step ClickCancel (sample_detail sample_request))))))
       = Some \<lparr>payload = [Set_status Failed, Set_error_message (Some ''Canceled by user'')],
               eq_id = ''3f2a9c1e-77aa-4b6e-9d2c-5e8f00112233''\<rparr>"
  using handleCancel_no_status_guard
          [of "sample_detail (sample_request\<lparr>status := Completed\<rparr>)"
              "sample_request\<lparr>status := Completed\<rparr>" False
              "sample_request\<lparr>status := Completed\<rparr>"]
        handleCancel_no_status_guard
          [of "sample_detail sample_request" sample_request False
              "sample_request\<lparr>status := Completed\<rparr>"]
  by (simp add: sample_detail_def sample_request_def)

subsection \<open>Submission form\<close>

lemma foldl_size_sum:
  "foldl (\<lambda>sum file. sum + f_size file) a fs = a + sum_list (map f_size fs)"
  by (induction fs arbitrary: a) auto

lemma length_filter_less_iff:
  "length (filter P xs) < length xs \<longleftrightarrow> (\<exists>x \<in> set xs. \<not> P x)"
proof -
  have "length (filter P xs) + length (filter (\<lambda>x. \<not> P x) xs) = length xs"
    by (rule sum_length_filter_compl)
  moreover have "length (filter (\<lambda>x. \<not> P x) xs) = 0 \<longleftrightarrow> (\<forall>x \<in> set xs. P x)"
    by (simp add: filter_empty_conv)
  ultimately show ?thesis
    by (metis add.right_neutral less_add_same_cancel1 gr0I less_irrefl)
qed

lemma error_keys_empty:
  "error_keys e = [] \<longleftrightarrow>
     e_reportType e = None \<and> e_currentReleaseId e = None \<and> e_targetReleaseId e = None \<and>
     e_title e = None \<and> e_description e = None \<and> e_attachments e = None"
  by (simp add: error_keys_def)

text \<open>
  What \<open>validate\<close> leaves in the target-release and attachments fields, and what it
  returns.  The proof names the intermediate error objects of the definition and follows
  one field through them.
\<close>

lemma validate_fields:
  fixes st
  defines "fd \<equiv> formData st"
  shows validate_target:
    "e_targetReleaseId (fst (validate st)) =
     (if targetReleaseId fd = [] then Some ''Please select a target release''
      else if currentReleaseId fd = [] then None
      else case find (\<lambda>r. rel_id r = currentReleaseId fd) (form_releases st) of
             None \<Rightarrow> None
           | Some c \<Rightarrow>
              (case find (\<lambda>r. rel_id r = targetReleaseId fd) (form_releases st) of
                 None \<Rightarrow> None
               | Some t \<Rightarrow> if version c \<ge> version t
                           then Some ''Target release must be newer than current release''
                           else None))"
  and validate_attachments:
    "e_attachments (fst (validate st)) =
     (if sum_list (map f_size (form_attachments st)) > 52428800
      then Some ''Total file size cannot exceed 50MB''
      else if length (form_attachments st) > 5 then Some ''Maximum 5 files allowed''
      else None)"
  and validate_ok:
    "snd (validate st) \<longleftrightarrow> error_keys (fst (validate st)) = []"
proof -
  define e1 where "e1 = (if reportType fd = None
                then no_errors\<lparr>e_reportType := Some ''Please select a report type''\<rparr>
                else no_errors)"
  define e2 where "e2 = (if currentReleaseId fd = []
                then e1\<lparr>e_currentReleaseId := Some ''Please select your current release''\<rparr>
                else e1)"
  define e3 where "e3 = (if targetReleaseId fd = []
                then e2\<lparr>e_targetReleaseId := Some ''Please select a target release''\<rparr>
                else e2)"
  define e4 where "e4 = (if currentReleaseId fd \<noteq> [] \<and> targetReleaseId fd \<noteq> []
                then (case find (\<lambda>r. rel_id r = currentReleaseId fd) (form_releases st) of
                        None \<Rightarrow> e3
                      | Some currentRelease \<Rightarrow>
                          (case find (\<lambda>r. rel_id r = targetReleaseId fd) (form_releases st) of
                             None \<Rightarrow> e3
                           | Some targetRelease \<Rightarrow>
                               if version currentRelease \<ge> version targetRelease
                               then e3\<lparr>e_targetReleaseId :=
                                         Some ''Target release must be newer than current release''\<rparr>
                               else e3))
                else e3)"
  define e5 where "e5 = (if fd_title fd \<noteq> [] \<and> length (fd_title fd) > 100
                then e4\<lparr>e_title := Some ''Title cannot exceed 100 characters''\<rparr>
                else e4)"
  define e6 where "e6 = (if fd_description fd \<noteq> [] \<and> length (fd_description fd) > 1000
                then e5\<lparr>e_description := Some ''Description cannot exceed 1000 characters''\<rparr>
                else e5)"
  define totalSize where
    "totalSize = foldl (\<lambda>sum file. sum + f_size file) 0 (form_attachments st)"
  define e7 where "e7 = (if length (form_attachments st) > 5
                then e6\<lparr>e_attachments := Some ''Maximum 5 files allowed''\<rparr>
                else e6)"
  define e8 where "e8 = (if totalSize > 50 * 1024 * 1024
                then e7\<lparr>e_attachments := Some ''Total file size cannot exceed 50MB''\<rparr>
                else e7)"
  have v: "validate st = (e8, length (error_keys e8) = 0)"
    by (simp only: validate_def Let_def e8_def e7_def totalSize_def e6_def e5_def e4_def e3_def
          e2_def e1_def fd_def)
  have t1: "e_targetReleaseId e1 = None"
    by (simp add: e1_def no_errors_def)
  have t2: "e_targetReleaseId e2 = None"
    by (simp add: e2_def t1)
  have t3: "e_targetReleaseId e3 =
      (if targetReleaseId fd = [] then Some ''Please select a target release'' else None)"
    by (simp add: e3_def t2)
  have t4: "e_targetReleaseId e4 =
     (if targetReleaseId fd = [] then Some ''Please select a target release''
      else if currentReleaseId fd = [] then None
      else case find (\<lambda>r. rel_id r = currentReleaseId fd) (form_releases st) of
             None \<Rightarrow> None
           | Some c \<Rightarrow>
              (case find (\<lambda>r. rel_id r = targetReleaseId fd) (form_releases st) of
                 None \<Rightarrow> None
               | Some t \<Rightarrow> if version c \<ge> version t
                           then Some ''Target release must be newer than current release''
                           else None))"
    by (simp add: e4_def t3 split: option.splits)
  have t8: "e_targetReleaseId e8 = e_targetReleaseId e4"
    by (simp add: e8_def e7_def e6_def e5_def)
  show "e_targetReleaseId (fst (validate st)) =
     (if targetReleaseId fd = [] then Some ''Please select a target release''
      else if currentReleaseId fd = [] then None
      else case find (\<lambda>r. rel_id r = currentReleaseId fd) (form_releases st) of
             None \<Rightarrow> None
           | Some c \<Rightarrow>
              (case find (\<lambda>r. rel_id r = targetReleaseId fd) (form_releases st) of
                 None \<Rightarrow> None
               | Some t \<Rightarrow> if version c \<ge> version t
                           then Some ''Target release must be newer than current release''
                           else None))"
    by (simp only: v fst_conv t8 t4)
  have a1: "e_attachments e1 = None"
    by (simp add: e1_def no_errors_def)
  have a2: "e_attachments e2 = None"
    by (simp add: e2_def a1)
  have a3: "e_attachments e3 = None"
    by (simp add: e3_def a2)
  have a4: "e_attachments e4 = None"
    by (simp add: e4_def a3 split: option.splits)
  have a6: "e_attachments e6 = None"
    by (simp add: e6_def e5_def a4)
  have a8: "e_attachments e8 =
     (if totalSize > 52428800 then Some ''Total file size cannot exceed 50MB''
      else if length (form_attachments st) > 5 then Some ''Maximum 5 files allowed''
      else None)"
    by (simp add: e8_def e7_def a6)
  show "e_attachments (fst (validate st)) =
     (if sum_list (map f_size (form_attachments st)) > 52428800
      then Some ''Total file size cannot exceed 50MB''
      else if length (form_attachments st) > 5 then Some ''Maximum 5 files allowed''
      else None)"
    by (simp only: v fst_conv a8) (simp add: totalSize_def foldl_size_sum)
  show "snd (validate st) \<longleftrightarrow> error_keys (fst (validate st)) = []"
    by (simp only: v fst_conv snd_conv length_0_conv)
qed

lemma handleSubmit_blocked:
  "\<not> snd (validate st) \<Longrightarrow> handleSubmit st = st\<lparr>errors := fst (validate st)\<rparr>"
  by (cases "validate st") (simp add: handleSubmit_def)

lemma handleFileChange_attachments:
  "form_attachments (handleFileChange files st)
      = form_attachments st
        @ filter (\<lambda>f. f_type f \<in> {''application/pdf'', ''text/plain'', ''text/markdown'',
                                   ''application/json'', ''application/xml'', ''text/xml''}
                       \<and> f_size f \<le> 10485760) files"
  by (simp add: handleFileChange_def validTypes_def Let_def)

lemma handleFileChange_errors:
  "errors (handleFileChange files st)
      = (errors st)\<lparr>e_attachments :=
          (if \<exists>f \<in> set files.
                 \<not> (f_type f \<in> {''application/pdf'', ''text/plain'', ''text/markdown'',
                                  ''application/json'', ''application/xml'', ''text/xml''}
                    \<and> f_size f \<le> 10485760)
           then Some ''Some files were rejected. Only PDF, TXT, MD, JSON, XML files up to 10MB are allowed.''
           else None)\<rparr>"
  unfolding handleFileChange_def Let_def length_filter_less_iff
  by (simp add: validTypes_def)

lemma map_filter_uploads:
  "List.map_filter upload_path
     (concat (map (\<lambda>file. [StorageUpload (g file) file, InsertAttachment (h file)]) fs))
     = map (\<lambda>file. (g file, file)) fs"
  by (induction fs) (simp_all add: List.map_filter_simps)

text \<open>
  Claim C3.  For a pair of selected releases (both ids chosen and both found in the loaded
  list), validation records the target-ordering error, and so rejects the form, exactly when
  the current release's version string is greater than or equal to the target's in the
  lexicographic order of strings; otherwise the target field carries no error.
\<close>

theorem validate_target_ordering:
  assumes "currentReleaseId (formData st) \<noteq> []" and "targetReleaseId (formData st) \<noteq> []"
    and "find (\<lambda>r. rel_id r = currentReleaseId (formData st)) (form_releases st) = Some c"
    and "find (\<lambda>r. rel_id r = targetReleaseId (formData st)) (form_releases st) = Some t"
  shows "(e_targetReleaseId (fst (validate st))
            = Some ''Target release must be newer than current release''
          \<longleftrightarrow> version c \<ge> version t)
       \<and> (e_targetReleaseId (fst (validate st)) = None \<longleftrightarrow> version c < version t)
       \<and> (version c \<ge> version t \<longrightarrow>
            \<not> snd (validate st) \<and> showConfirm (handleSubmit st) = showConfirm st)"
proof -
  have tgt: "e_targetReleaseId (fst (validate st)) =
      (if version c \<ge> version t
       then Some ''Target release must be newer than current release'' else None)"
    using assms by (simp add: validate_target)
  have blocked: "\<not> snd (validate st)" if "version c \<ge> version t"
    using that tgt by (simp add: validate_ok error_keys_empty)
  show ?thesis
    using tgt blocked by (auto simp: handleSubmit_blocked)
qed

theorem validate_target_ordering_witness:
  "e_targetReleaseId (fst (validate (sample_form ''rel-21'' ''rel-20'' [])))
       = Some ''Target release must be newer than current release''
   \<and> \<not> snd (validate (sample_form ''rel-21'' ''rel-20'' []))
   \<and> version release_EB21 = ''EB21'' \<and> version release_EB20 = ''EB20''
   \<and> ''EB21'' \<ge> ''EB20''
   \<and> e_targetReleaseId (fst (validate (sample_form ''rel-20'' ''rel-21'' []))) = None"
  using validate_target_ordering
          [of "sample_form ''rel-21'' ''rel-20'' []" release_EB21 release_EB20]
        validate_target_ordering
          [of "sample_form ''rel-20'' ''rel-21'' []" release_EB20 release_EB21]
  by (simp add: sample_form_def sample_releases_def release_EB20_def release_EB21_def)

text \<open>
  Claim C4.  A file selection appends to the accepted files exactly those selected files
  whose MIME type is one of the six allowed and whose size is at most 10485760 bytes; the
  other files are dropped, one aggregate message is set when some file was dropped (and the
  attachments message is cleared, other messages untouched, when none was); and validation
  fails, leaving the confirmation closed, whenever more than 5 files are accepted or their
  sizes sum to more than 52428800 bytes.
\<close>

theorem attachment_rules:
  "form_attachments (handleFileChange files st)
      = form_attachments st
        @ filter (\<lambda>f. f_type f \<in> {''application/pdf'', ''text/plain'', ''text/markdown'',
                                   ''application/json'', ''application/xml'', ''text/xml''}
                       \<and> f_size f \<le> 10 * 1024 * 1024) files
   \<and> errors (handleFileChange files st)
      = (errors st)\<lparr>e_attachments :=
          (if \<exists>f \<in> set files.
                 \<not> (f_type f \<in> {''application/pdf'', ''text/plain'', ''text/markdown'',
                                  ''application/json'', ''application/xml'', ''text/xml''}
                    \<and> f_size f \<le> 10 * 1024 * 1024)
           then Some ''Some files were rejected. Only PDF, TXT, MD, JSON, XML files up to 10MB are allowed.''
           else None)\<rparr>
   \<and> (length (form_attachments st) > 5
        \<or> sum_list (map f_size (form_attachments st)) > 50 * 1024 * 1024
      \<longrightarrow> \<not> snd (validate st) \<and> e_attachments (fst (validate st)) \<noteq> None
          \<and> showConfirm (handleSubmit st) = showConfirm st)"
proof -
  have blocked: "\<not> snd (validate st) \<and> e_attachments (fst (validate st)) \<noteq> None
          \<and> showConfirm (handleSubmit st) = showConfirm st"
    if "length (form_attachments st) > 5
        \<or> sum_list (map f_size (form_attachments st)) > 52428800"
  proof -
    from that have a: "e_attachments (fst (validate st)) \<noteq> None"
      by (auto simp: validate_attachments)
    then have "\<not> snd (validate st)"
      by (simp add: validate_ok error_keys_empty)
    with a show ?thesis
      by (simp add: handleSubmit_blocked)
  qed
  show ?thesis
    using blocked handleFileChange_attachments [of files st] handleFileChange_errors [of files st]
    by simp
qed

theorem attachment_rules_witness:
  "form_attachments
     (handleFileChange [pdf ''ten.pdf'' 10485760, pdf ''big.pdf'' 10590618,
                        \<lparr>f_name = ''a.png'', f_size = 10, f_type = ''image/png''\<rparr>]
        (sample_form ''rel-20'' ''rel-21'' []))
     = [pdf ''ten.pdf'' 10485760]
   \<and> e_attachments (errors
       (handleFileChange [pdf ''ten.pdf'' 10485760, pdf ''big.pdf'' 10590618,
                          \<lparr>f_name = ''a.png'', f_size = 10, f_type = ''image/png''\<rparr>]
          (sample_form ''rel-20'' ''rel-21'' [])))
     = Some ''Some files were rejected. Only PDF, TXT, MD, JSON, XML files up to 10MB are allowed.''
   \<and> length (replicate 6 (pdf ''f.pdf'' 1)) > 5
   \<and> \<not> snd (validate (sample_form ''rel-20'' ''rel-21'' (replicate 6 (pdf ''f.pdf'' 1))))"
  using attachment_rules
          [of "[pdf ''ten.pdf'' 10485760, pdf ''big.pdf'' 10590618,
                \<lparr>f_name = ''a.png'', f_size = 10, f_type = ''image/png''\<rparr>]"
              "sample_form ''rel-20'' ''rel-21'' []"]
        attachment_rules
          [of "[]" "sample_form ''rel-20'' ''rel-21'' (replicate 6 (pdf ''f.pdf'' 1))"]
  by (simp add: sample_form_def pdf_def no_errors_def)

text \<open>
  Claim C9.  Every upload made on confirmation goes to the path made of the signed-in
  user's id, the id of the request row just created and the file's name, joined by \<open>/\<close>;
  when the insert succeeded there is one such upload for each accepted file, in order, and
  the created row has that user as its owner.
\<close>

theorem upload_paths:
  "(\<forall>p f. StorageUpload p f \<in> set (fst (handleConfirm nd reply st)) \<longrightarrow>
       (\<exists>u rid. user st = Some u \<and> reply_error reply = None \<and> reply_id reply = Some rid
          \<and> f \<in> set (form_attachments st)
          \<and> p = au_id u @ ''/'' @ rid @ ''/'' @ f_name f))
   \<and> (\<forall>u rid. user st = Some u \<and> reply_error reply = None \<and> reply_id reply = Some rid \<longrightarrow>
         List.map_filter upload_path (fst (handleConfirm nd reply st))
           = map (\<lambda>f. (au_id u @ ''/'' @ rid @ ''/'' @ f_name f, f)) (form_attachments st)
         \<and> (\<exists>ins. hd (fst (handleConfirm nd reply st)) = InsertRequest ins
                \<and> ins_user_id ins = au_id u))"
  by (auto simp: handleConfirm_def Let_def filePath_def List.map_filter_simps map_filter_uploads
           split: option.splits)

theorem upload_paths_witness:
  "user (sample_form ''rel-20'' ''rel-21'' [pdf ''notes.pdf'' 10, pdf ''schema.pdf'' 20])
     = Some \<lparr>au_id = ''user-1'', email = ''a@example.com'', au_created_at = ''2026-01-01''\<rparr>
   \<and> List.map_filter upload_path
        (fst (handleConfirm Not_an_Error \<lparr>reply_id = Some ''req-9'', reply_error = None\<rparr>
               (sample_form ''rel-20'' ''rel-21'' [pdf ''notes.pdf'' 10, pdf ''schema.pdf'' 20])))
     = [(''user-1/req-9/notes.pdf'', pdf ''notes.pdf'' 10),
        (''user-1/req-9/schema.pdf'', pdf ''schema.pdf'' 20)]"
  using upload_paths
          [of Not_an_Error "\<lparr>reply_id = Some ''req-9'', reply_error = None\<rparr>"
              "sample_form ''rel-20'' ''rel-21'' [pdf ''notes.pdf'' 10, pdf ''schema.pdf'' 20]"]
  by (simp add: sample_form_def pdf_def)

subsection \<open>Results view\<close>

lemma foldl_append_concat: "foldl (\<lambda>md x. md @ g x) a xs = a @ concat (map g xs)"
  by (induction xs arbitrary: a) auto

lemma markdown_depends:
  assumes "results st = results st'" and "rs_request st = rs_request st'"
  shows "generateMarkdown f g st = generateMarkdown f g st'"
  unfolding generateMarkdown_def assms ..

text \<open>
  The Markdown starts with the title, the request id, the report type and the line
  \<open>**Generated:**\<close>, which carries the timestamp as the host's formatter shows it.  The
  proof names the successive values of \<open>markdown\<close> and shows each to extend the one before.
\<close>

lemma markdown_header:
  assumes "results st = Some res" and "rs_request st = Some req"
  shows "prefix (''# Impact Assessment Report'' @ [LF, LF]
                 @ ''**Request ID:** '' @ req_id req @ [LF]
                 @ ''**Report Type:** '' @ ReportType_text (report_type req) @ [LF]
                 @ ''**Generated:** '' @ f (generated_at res) @ [LF, LF]) (generateMarkdown f g st)"
proof -
  define m1 where "m1 = ''# Impact Assessment Report'' @ [LF, LF]
                 @ ''**Request ID:** '' @ req_id req @ [LF]
                 @ ''**Report Type:** '' @ ReportType_text (report_type req) @ [LF]
                 @ ''**Generated:** '' @ f (generated_at res) @ [LF, LF]"
  define m2 where "m2 = m1 @ ''## Summary'' @ [LF, LF]
                 @ ''- **API Endpoints Modified:** ''
                 @ g (api_endpoints_modified (summary res)) @ [LF]
                 @ ''- **API Endpoints Added:** ''
                 @ g (api_endpoints_added (summary res)) @ [LF]
                 @ ''- **API Endpoints Removed:** ''
                 @ g (api_endpoints_removed (summary res)) @ [LF]
                 @ ''- **Database Tables Modified:** ''
                 @ g (database_tables_modified (summary res)) @ [LF]
                 @ ''- **Database Tables Added:** ''
                 @ g (database_tables_added (summary res)) @ [LF]
                 @ ''- **Database Tables Removed:** ''
                 @ g (database_tables_removed (summary res)) @ [LF]
                 @ ''- **Risk Level:** '' @ RiskLevel_text (risk_level (summary res)) @ [LF]
                 @ ''- **Breaking Changes:** ''
                 @ (if breaking_changes (summary res) then ''Yes'' else ''No'') @ [LF, LF]"
  define m3 where "m3 = (if length (key_findings (summary res)) > 0
                     then foldl (\<lambda>markdown finding. markdown @ ''- '' @ finding @ [LF])
                            (m2 @ ''## Key Findings'' @ [LF, LF]) (key_findings (summary res))
                          @ [LF]
                     else m2)"
  define m4 where "m4 = (case api_changes res of
                       None \<Rightarrow> m3
                     | Some changes \<Rightarrow>
                         if length changes > 0
                         then foldl (\<lambda>markdown change. markdown
                                 @ ''### '' @ endpoint change @ [LF]
                                 @ ''- **Method:** '' @ http_method change @ [LF]
                                 @ ''- **Type:** '' @ ChangeType_text (api_change_type change) @ [LF]
                                 @ ''- **Summary:** '' @ api_summary change @ [LF, LF])
                                (m3 @ ''## API Changes'' @ [LF, LF]) changes
                         else m3)"
  define m5 where "m5 = (case database_changes res of
                       None \<Rightarrow> m4
                     | Some changes \<Rightarrow>
                         if length changes > 0
                         then foldl (\<lambda>markdown change. markdown
                                 @ ''### '' @ table_name change @ [LF]
                                 @ ''- **Type:** '' @ ChangeType_text (db_change_type change) @ [LF]
                                 @ ''- **Summary:** '' @ db_summary change @ [LF, LF])
                                (m4 @ ''## Database Changes'' @ [LF, LF]) changes
                         else m4)"
  have v: "generateMarkdown f g st = m5"
    by (simp only: generateMarkdown_def assms option.case Let_def m5_def m4_def m3_def m2_def
          m1_def)
  have "prefix m1 m2"
    unfolding m2_def by (rule prefixI) (rule refl)
  also have "prefix m2 m3"
    by (simp add: m3_def foldl_append_concat)
  also have "prefix m3 m4"
    by (simp add: m4_def foldl_append_concat split: option.splits)
  also have "prefix m4 m5"
    by (simp add: m5_def foldl_append_concat split: option.splits)
  finally show ?thesis
    unfolding v m1_def .
qed

lemma en_GB_UTC_sample:
  "en_GB_UTC ''2026-01-01T17:43:10.123456+00:00'' = ''01/01/2026, 17:43:10''"
  by code_simp

text \<open>
  Claim C5, as stated, fails in its second half: the timestamp does not appear verbatim.  On
  a host formatting for en-GB in UTC, the Markdown generated for the sample result does not
  contain the result's \<open>generated_at\<close> text anywhere.
\<close>

theorem markdown_timestamp_counterexample:
  "results sample_results_state = Some sample_results
   \<and> generated_at sample_results = ''2026-01-01T17:43:10.123456+00:00''
   \<and> \<not> String_includes (generateMarkdown en_GB_UTC decimal sample_results_state)
          (generated_at sample_results)"
  by code_simp

text \<open>
  Claim C5, amended.  The Markdown is a function of the result, the enclosing request and
  the host's date formatter and number conversion alone: two view states holding the same
  result and request give the same string, whatever the rest of the state.  The timestamp
  enters it through the formatter: the document starts with the title, the request id, the
  report type and the line \<open>**Generated:**\<close> followed by
  \<open>new Date(generated_at).toLocaleString()\<close>.
\<close>

theorem markdown_deterministic_localized_timestamp:
  "(results st' = results st \<and> rs_request st' = rs_request st
      \<longrightarrow> generateMarkdown f g st' = generateMarkdown f g st)
   \<and> (results st = Some res \<and> rs_request st = Some req
      \<longrightarrow> prefix (''# Impact Assessment Report'' @ [LF, LF]
                 @ ''**Request ID:** '' @ req_id req @ [LF]
                 @ ''**Report Type:** '' @ ReportType_text (report_type req) @ [LF]
                 @ ''**Generated:** '' @ f (generated_at res) @ [LF, LF])
            (generateMarkdown f g st))"
  using markdown_depends [of st' st f g] markdown_header [of st res req f g] by blast

theorem markdown_deterministic_localized_timestamp_witness:
  "results (sample_results_state\<lparr>activeTab := Tab_raw, rs_toast := Some ''Copied''\<rparr>)
     = results sample_results_state
   \<and> generateMarkdown en_GB_UTC decimal
       (sample_results_state\<lparr>activeTab := Tab_raw, rs_toast := Some ''Copied''\<rparr>)
     = generateMarkdown en_GB_UTC decimal sample_results_state
   \<and> prefix (''# Impact Assessment Report'' @ [LF, LF]
             @ ''**Request ID:** 3f2a9c1e-77aa-4b6e-9d2c-5e8f00112233'' @ [LF]
             @ ''**Report Type:** API'' @ [LF]
             @ ''**Generated:** 01/01/2026, 17:43:10'' @ [LF, LF])
        (generateMarkdown en_GB_UTC decimal sample_results_state)"
  using markdown_deterministic_localized_timestamp
          [of "sample_results_state\<lparr>activeTab := Tab_raw, rs_toast := Some ''Copied''\<rparr>"
              sample_results_state en_GB_UTC decimal sample_results
              "sample_request\<lparr>status := Completed\<rparr>"]
  by (simp add: sample_results_state_def sample_results_def sample_request_def en_GB_UTC_sample)

text \<open>
  Claim C6.  The content offered for the format \<open>pdf\<close> is the content offered for the format
  \<open>json\<close>: when a result is loaded both are \<open>JSON.stringify(results, null, 2)\<close>, handed to
  the browser as \<open>text/plain\<close>; when none is loaded neither offers a file.
\<close>

theorem download_pdf_is_json:
  "map_option content (fst (handleDownload stringify f g Format_pdf st))
     = map_option content (fst (handleDownload stringify f g Format_json st))
   \<and> (results st = Some res \<longrightarrow>
        map_option content (fst (handleDownload stringify f g Format_pdf st))
          = Some (stringify res)
        \<and> map_option content (fst (handleDownload stringify f g Format_json st))
          = Some (stringify res)
        \<and> map_option blob_type (fst (handleDownload stringify f g Format_pdf st))
          = Some ''text/plain'')"
  by (simp add: handleDownload_def Let_def split: option.splits)

theorem download_pdf_is_json_witness:
  "results sample_results_state = Some sample_results
   \<and> map_option content
        (fst (handleDownload sample_stringify en_GB_UTC decimal Format_pdf sample_results_state))
       = Some (sample_stringify sample_results)
   \<and> map_option content
        (fst (handleDownload sample_stringify en_GB_UTC decimal Format_pdf sample_results_state))
       = map_option content
          (fst (handleDownload sample_stringify en_GB_UTC decimal Format_json sample_results_state))"
  using download_pdf_is_json
          [of sample_stringify en_GB_UTC decimal sample_results_state sample_results]
  by (simp add: sample_results_state_def)

subsection \<open>Request listing\<close>

lemma String_includes_iff: "String_includes s t \<longleftrightarrow> (\<exists>p q. s = p @ t @ q)"
proof (induction s)
  case Nil
  then show ?case by auto
next
  case (Cons c s)
  show ?case
  proof
    assume "String_includes (c # s) t"
    then consider "prefix t (c # s)" | "String_includes s t"
      by auto
    then show "\<exists>p q. c # s = p @ t @ q"
    proof cases
      case 1
      then obtain q where "c # s = t @ q"
        by (auto simp: prefix_def)
      then have "c # s = [] @ t @ q"
        by simp
      then show ?thesis
        by blast
    next
      case 2
      with Cons.IH obtain p q where "s = p @ t @ q"
        by blast
      then have "c # s = (c # p) @ t @ q"
        by simp
      then show ?thesis
        by blast
    qed
  next
    assume "\<exists>p q. c # s = p @ t @ q"
    then obtain p q where pq: "c # s = p @ t @ q"
      by blast
    show "String_includes (c # s) t"
    proof (cases p)
      case Nil
      with pq have "prefix t (c # s)"
        by (simp add: prefix_def)
      then show ?thesis
        by simp
    next
      case (Cons a p')
      with pq have "s = p' @ t @ q"
        by simp
      with Cons.IH have "String_includes s t"
        by blast
      then show ?thesis
        by simp
    qed
  qed
qed

lemma fetchData_sorted:
  "sorted_wrt (\<lambda>a b. instant (created_at a) \<ge> instant (created_at b)) (fetchData instant uid tbl)"
proof -
  let ?xs = "sort_key (\<lambda>r. instant (created_at r)) (filter (\<lambda>r. user_id r = uid) tbl)"
  have "sorted (map (\<lambda>r. instant (created_at r)) ?xs)"
    by (rule sorted_sort_key)
  then have "sorted_wrt (\<lambda>a b. instant (created_at a) \<le> instant (created_at b)) ?xs"
    by (simp add: sorted_map sorted_wrt_map)
  then show ?thesis
    unfolding fetchData_def by (simp add: sorted_wrt_rev)
qed

text \<open>
  Claim C8, as stated, fails: the id is matched anywhere, not at its start.  The sample
  request without a title is retained for the search term \<open>9c1e\<close>, which occurs inside its
  id and is not a prefix of it.
\<close>

theorem listing_filter_counterexample:
  "sample_request\<lparr>title := None\<rparr>
     \<in> set (filteredRequests ascii_toLowerCase [sample_request\<lparr>title := None\<rparr>] ''9c1e'' ''all'')
   \<and> \<not> prefix ''9c1e'' (req_id (sample_request\<lparr>title := None\<rparr>))
   \<and> title (sample_request\<lparr>title := None\<rparr>) = None"
  by (simp add: filteredRequests_def sample_request_def)

text \<open>
  Claim C8, amended.  A fetched request is retained exactly when the search term occurs
  somewhere in its id, or it has a title whose lower-cased text contains the lower-cased
  term, and the status filter is \<open>all\<close> or equals the request's status.  The filter keeps
  the order of the fetched list, which the table returns latest \<open>created_at\<close> first, so
  the displayed list is newest-first.
\<close>

theorem listing_filter:
  "(req \<in> set (filteredRequests toLowerCase requests searchTerm statusFilter) \<longleftrightarrow>
      req \<in> set requests
      \<and> ((\<exists>p q. req_id req = p @ searchTerm @ q)
         \<or> (\<exists>t p q. title req = Some t \<and> toLowerCase t = p @ toLowerCase searchTerm @ q))
      \<and> (statusFilter = ''all'' \<or> RequestStatus_text (status req) = statusFilter))
   \<and> subseq (filteredRequests toLowerCase requests searchTerm statusFilter) requests
   \<and> sorted_wrt (\<lambda>a b. instant (created_at a) \<ge> instant (created_at b))
        (filteredRequests toLowerCase (fetchData instant uid tbl) searchTerm statusFilter)"
proof -
  have "sorted_wrt (\<lambda>a b. instant (created_at a) \<ge> instant (created_at b))
        (filteredRequests toLowerCase (fetchData instant uid tbl) searchTerm statusFilter)"
    unfolding filteredRequests_def by (rule sorted_wrt_filter) (rule fetchData_sorted)
  moreover have "subseq (filteredRequests toLowerCase requests searchTerm statusFilter) requests"
    by (simp add: filteredRequests_def)
  ultimately show ?thesis
    by (auto simp: filteredRequests_def Let_def String_includes_iff split: option.splits)
qed

theorem listing_filter_witness:
  "sample_request \<in> set (filteredRequests ascii_toLowerCase
       [sample_request, sample_request\<lparr>req_id := ''0000'', title := None\<rparr>] ''q1 prod'' ''Running'')
   \<and> title sample_request = Some ''Q1 Production Upgrade Assessment''
   \<and> ascii_toLowerCase ''Q1 Production Upgrade Assessment''
       = [] @ ascii_toLowerCase ''q1 prod'' @ ''uction upgrade assessment''
   \<and> subseq (filteredRequests ascii_toLowerCase
       [sample_request, sample_request\<lparr>req_id := ''0000'', title := None\<rparr>] ''q1 prod'' ''Running'')
       [sample_request, sample_request\<lparr>req_id := ''0000'', title := None\<rparr>]"
proof -
  have lc: "ascii_toLowerCase ''Q1 Production Upgrade Assessment''
       = [] @ ascii_toLowerCase ''q1 prod'' @ ''uction upgrade assessment''"
    by code_simp
  have t: "title sample_request = Some ''Q1 Production Upgrade Assessment''"
    and s: "RequestStatus_text (status sample_request) = ''Running''"
    by (simp_all add: sample_request_def)
  note lf = listing_filter
            [of sample_request ascii_toLowerCase
                "[sample_request, sample_request\<lparr>req_id := ''0000'', title := None\<rparr>]"
                "''q1 prod''" "''Running''" "\<lambda>s. (0::nat)" "''user-1''" "[]"]
  have mem: "sample_request
      \<in> set [sample_request, sample_request\<lparr>req_id := ''0000'', title := None\<rparr>]"
    by simp
  have "sample_request \<in> set (filteredRequests ascii_toLowerCase
       [sample_request, sample_request\<lparr>req_id := ''0000'', title := None\<rparr>] ''q1 prod'' ''Running'')"
    using lf lc t s mem by blast
  moreover have "subseq (filteredRequests ascii_toLowerCase
       [sample_request, sample_request\<lparr>req_id := ''0000'', title := None\<rparr>] ''q1 prod'' ''Running'')
       [sample_request, sample_request\<lparr>req_id := ''0000'', title := None\<rparr>]"
    using lf by blast
  ultimately show ?thesis
    using t lc by blast
qed

end
